theory Spec2Isabelle
  imports Main
begin

section \<open>MMM-Tube-Times: the node helper\<close>

text \<open>
  A shallow embedding of \<^verbatim>\<open>node_helper.js\<close>: the severity mapping, the two socket
  handlers \<^verbatim>\<open>getTubeStatusData\<close> and \<^verbatim>\<open>getTubeLineStatusData\<close>, and the fields of
  \<^verbatim>\<open>this\<close> that they read and write.

  Conventions of the embedding.
  \<^item> A local variable or parameter whose name is also the name of a property carries a
    prime (\<open>lineStatuses'\<close> is the local \<^verbatim>\<open>lineStatuses\<close>).
  \<^item> The response body is any of: \<^verbatim>\<open>null\<close>, a JSON array, a string (a body that was not
    parsed as JSON), or another value (an object without a \<^verbatim>\<open>length\<close> property, a number, a
    boolean). An element of the array is an object, a primitive value or \<^verbatim>\<open>null\<close>.
  \<^item> The objects have the types of the JSDoc typedefs. A property that holds an object
    or an array (\<^verbatim>\<open>lineStatuses\<close>, \<^verbatim>\<open>disruptions\<close>, \<^verbatim>\<open>disruption\<close>) may be \<^verbatim>\<open>null\<close> or absent,
    which is \<open>None\<close>, and so may the string properties that the source tests for
    truthiness; the arrays \<^verbatim>\<open>lineStatuses\<close> and \<^verbatim>\<open>disruptions\<close> hold objects of their element
    type.
  \<^item> Reading a property of \<^verbatim>\<open>null\<close> or \<^verbatim>\<open>undefined\<close> raises \<^verbatim>\<open>TypeError\<close>, which is a branch
    of the model; reading a property that a primitive value does not have gives
    \<^verbatim>\<open>undefined\<close>.
  \<^item> \<^verbatim>\<open>statusSeverity\<close> is a JSON number holding a severity code; it is an \<open>int\<close>.
  \<^item> The promise returned by \<^verbatim>\<open>axios.get\<close> is a parameter of the model: it either
    rejects with an error or resolves with the parsed body. One request runs to
    completion before the next notification is handled, so the callbacks read the
    fields of \<^verbatim>\<open>this\<close> that the call itself has written.
  \<^item> \<^verbatim>\<open>console.log\<close> and \<^verbatim>\<open>console.error\<close> are not modelled. Each handler sends one
    notification, under one name on all its paths (\<^verbatim>\<open>GOT-TUBE-TIMES\<close>,
    \<^verbatim>\<open>GOT-TUBE-LINE-STATUS\<close>); the payload it gives \<^verbatim>\<open>sendSocketNotification\<close> is the
    second component of the handler's value, the first being \<^verbatim>\<open>this\<close> afterwards.
\<close>

subsection \<open>Data model\<close>

text \<open>\<^verbatim>\<open>@typedef {"good"|"severe"|"warning"} TubeStatus\<close>\<close>

datatype TubeStatus = Good | Severe | Warning

text \<open>
  \<^verbatim>\<open>TFLDisruption\<close> and \<^verbatim>\<open>TFLNestedDisruption\<close> declare the same properties; the
  handler reads three of them.
\<close>

record TFLDisruption =
  category :: "string option"
  categoryDescription :: "string option"
  description :: "string option"

type_synonym TFLNestedDisruption = TFLDisruption

record TFLLineStatus =
  statusSeverity :: int
  statusSeverityDescription :: string
  reason :: "string option"
  disruption :: "TFLNestedDisruption option"

record TFLLine =
  lineStatuses :: "TFLLineStatus list option"
  disruptions :: "TFLDisruption list option"

text \<open>
  \<^verbatim>\<open>StandardizedMessage\<close>. Its properties carry the prefix \<open>m_\<close>, since four of them
  share their names with properties of the input records.
\<close>

record StandardizedMessage =
  m_text :: string
  m_statusSeverity :: int
  m_statusSeverityDescription :: string
  m_category :: string
  m_categoryDescription :: string

text \<open>
  A property of a notification payload that may be left out of the object literal,
  be \<^verbatim>\<open>null\<close>, or hold a string.
\<close>

datatype js_string = Absent | Null | Str string

text \<open>The payload of \<^verbatim>\<open>GOT-TUBE-LINE-STATUS\<close> (prefix \<open>p_\<close>).\<close>

record line_status_payload =
  p_serviceURL :: "string option"
  p_tubeStatus :: TubeStatus
  p_tubeStatusDescription :: js_string
  p_combinedMessages :: "StandardizedMessage list"

text \<open>
  The payload of \<^verbatim>\<open>GOT-TUBE-TIMES\<close> (prefix \<open>t_\<close>). The arrivals body is never
  inspected by the helper, so its type is a parameter; \<open>None\<close> is \<^verbatim>\<open>null\<close>.
\<close>

record 'arr tube_times_payload =
  t_url :: "string option"
  t_result :: "'arr option"

text \<open>
  The fields of \<^verbatim>\<open>this\<close>. \<^verbatim>\<open>start()\<close> sets \<^verbatim>\<open>result\<close> to \<^verbatim>\<open>null\<close>; the other three are
  \<^verbatim>\<open>undefined\<close> (\<open>None\<close>) until a handler assigns them.
\<close>

record 'arr helper =
  result :: "'arr option"
  url :: "string option"
  serviceURL :: "string option"
  tubeStatus :: "TubeStatus option"

definition start :: "'arr helper" where
  "start = \<lparr>result = None, url = None, serviceURL = None, tubeStatus = None\<rparr>"

datatype js_error = RequestError string | TypeError

text \<open>How the promise of \<^verbatim>\<open>axios.get\<close> settles; \<open>'body\<close> is \<^verbatim>\<open>response.data\<close>.\<close>

datatype 'body settled = Rejected js_error | Resolved 'body

text \<open>
  A body that is not \<^verbatim>\<open>null\<close> (the null body is \<open>None\<close>), and an element of an array: an
  object, a primitive value (a string, a number, a boolean) or \<^verbatim>\<open>null\<close> / \<^verbatim>\<open>undefined\<close>.
\<close>

datatype 'a js_element = ObjectElement 'a | PrimitiveElement | NullElement

datatype 'a js_body = JsonArray "'a js_element list" | JsonText string | JsonOther

text \<open>
  \<^verbatim>\<open>data.length\<close>: arrays and strings have a length; on another value the property is
  \<^verbatim>\<open>undefined\<close>, and \<^verbatim>\<open>undefined > 0\<close> is false.
\<close>

definition body_length :: "'a js_body \<Rightarrow> nat option" where
  "body_length body =
     (case body of JsonArray xs \<Rightarrow> Some (length xs) | JsonText t \<Rightarrow> Some (length t)
      | JsonOther \<Rightarrow> None)"

text \<open>
  \<^verbatim>\<open>data[0]\<close>: the first element of an array, the first character of a string (a
  primitive value), and \<^verbatim>\<open>undefined\<close> when there is none.
\<close>

definition first_element :: "'a js_body \<Rightarrow> 'a js_element" where
  "first_element body =
     (case body of
        JsonArray [] \<Rightarrow> NullElement
      | JsonArray (x # _) \<Rightarrow> x
      | JsonText [] \<Rightarrow> NullElement
      | JsonText (c # _) \<Rightarrow> PrimitiveElement
      | JsonOther \<Rightarrow> NullElement)"

text \<open>
  \<^verbatim>\<open>lineData.f\<close>: the property of an object, \<^verbatim>\<open>undefined\<close> on a primitive value, and a
  \<^verbatim>\<open>TypeError\<close> on \<^verbatim>\<open>null\<close> or \<^verbatim>\<open>undefined\<close>.
\<close>

definition property :: "'a js_element \<Rightarrow> ('a \<Rightarrow> 'b option) \<Rightarrow> js_error + 'b option" where
  "property x f =
     (case x of ObjectElement obj \<Rightarrow> Inr (f obj) | PrimitiveElement \<Rightarrow> Inr None
      | NullElement \<Rightarrow> Inl TypeError)"

subsection \<open>mapStatusSeverity\<close>

definition mapStatusSeverity :: "int \<Rightarrow> TubeStatus" where
  "mapStatusSeverity statusSeverity' =
     (if statusSeverity' = 10 \<or> statusSeverity' = 18 \<or> statusSeverity' = 19 then Good
      else if statusSeverity' \<in> set [1, 2, 3, 6, 16, 20] then Severe
      else Warning)"

subsection \<open>JavaScript idioms on optional strings\<close>

text \<open>A string is truthy when it is there and not empty.\<close>

definition truthy :: "string option \<Rightarrow> bool" where
  "truthy v = (case v of None \<Rightarrow> False | Some s \<Rightarrow> s \<noteq> [])"

text \<open>\<^verbatim>\<open>a || b\<close> on optional strings, and \<^verbatim>\<open>a || ''\<close>.\<close>

definition or_else :: "string option \<Rightarrow> string option \<Rightarrow> string option" where
  "or_else a b = (if truthy a then a else b)"

definition or_empty :: "string option \<Rightarrow> string" where
  "or_empty a = (case or_else a (Some []) of None \<Rightarrow> [] | Some s \<Rightarrow> s)"

text \<open>\<^verbatim>\<open>status.disruption?.f\<close>: \<^verbatim>\<open>undefined\<close> when there is no nested disruption.\<close>

definition opt_chain :: "TFLDisruption option \<Rightarrow> (TFLDisruption \<Rightarrow> string option) \<Rightarrow> string option" where
  "opt_chain d f = (case d of None \<Rightarrow> None | Some x \<Rightarrow> f x)"

text \<open>\<^verbatim>\<open>lineData.lineStatuses || []\<close>: a missing or null array is the empty array.\<close>

definition or_empty_array :: "'a list option \<Rightarrow> 'a list" where
  "or_empty_array a = (case a of None \<Rightarrow> [] | Some xs \<Rightarrow> xs)"

subsection \<open>Standardized messages\<close>

definition statusHasText :: "TFLLineStatus \<Rightarrow> bool" where
  "statusHasText status =
     (truthy (reason status) \<or>
      (case disruption status of None \<Rightarrow> False | Some d \<Rightarrow> truthy (description d)))"

definition statusMessage :: "TFLLineStatus \<Rightarrow> StandardizedMessage" where
  "statusMessage status =
     \<lparr>m_text = or_empty (or_else (reason status) (opt_chain (disruption status) description)),
      m_statusSeverity = statusSeverity status,
      m_statusSeverityDescription = statusSeverityDescription status,
      m_category = or_empty (opt_chain (disruption status) category),
      m_categoryDescription = or_empty (opt_chain (disruption status) categoryDescription)\<rparr>"

definition messagesFromStatuses :: "TFLLineStatus list \<Rightarrow> StandardizedMessage list" where
  "messagesFromStatuses lineStatuses' = map statusMessage (filter statusHasText lineStatuses')"

text \<open>
  After the filter \<^verbatim>\<open>disruption.description\<close> is a non-empty string, so \<open>or_empty\<close>
  only unwraps it.
\<close>

definition disruptionMessage :: "TFLDisruption \<Rightarrow> StandardizedMessage" where
  "disruptionMessage d =
     \<lparr>m_text = or_empty (description d),
      m_statusSeverity = 0,
      m_statusSeverityDescription = [],
      m_category = or_empty (category d),
      m_categoryDescription = or_empty (categoryDescription d)\<rparr>"

definition messagesFromDisruptions :: "TFLDisruption list \<Rightarrow> StandardizedMessage list" where
  "messagesFromDisruptions disruptions' =
     map disruptionMessage (filter (\<lambda>d. truthy (description d)) disruptions')"

definition allMessages :: "TFLLineStatus list \<Rightarrow> TFLDisruption list \<Rightarrow> StandardizedMessage list" where
  "allMessages lineStatuses' disruptions' =
     messagesFromStatuses lineStatuses' @ messagesFromDisruptions disruptions'"

subsection \<open>Deduplication through a Map\<close>

text \<open>
  A JavaScript \<^verbatim>\<open>Map\<close> keeps its entries in insertion order: \<^verbatim>\<open>set\<close> replaces the value of
  a key that is there, in place, and appends a new key; \<^verbatim>\<open>values()\<close> iterates in that
  order.
\<close>

type_synonym ('k, 'v) js_map = "('k \<times> 'v) list"

definition Map_has :: "('k, 'v) js_map \<Rightarrow> 'k \<Rightarrow> bool" where
  "Map_has m k = (k \<in> set (map fst m))"

fun Map_set :: "('k, 'v) js_map \<Rightarrow> 'k \<Rightarrow> 'v \<Rightarrow> ('k, 'v) js_map" where
  "Map_set [] k v = [(k, v)]"
| "Map_set ((k', v') # m) k v =
     (if k' = k then (k, v) # m else (k', v') # Map_set m k v)"

definition Map_values :: "('k, 'v) js_map \<Rightarrow> 'v list" where
  "Map_values m = map snd m"

text \<open>The \<^verbatim>\<open>forEach\<close> over \<^verbatim>\<open>allMessages\<close>, from the map built so far.\<close>

fun uniqueMessagesMap ::
  "(string, StandardizedMessage) js_map \<Rightarrow> StandardizedMessage list \<Rightarrow>
   (string, StandardizedMessage) js_map" where
  "uniqueMessagesMap m [] = m"
| "uniqueMessagesMap m (message # rest) =
     uniqueMessagesMap
       (if m_text message \<noteq> [] \<and> \<not> Map_has m (m_text message)
        then Map_set m (m_text message) message else m)
       rest"

definition combinedMessages :: "StandardizedMessage list \<Rightarrow> StandardizedMessage list" where
  "combinedMessages msgs = Map_values (uniqueMessagesMap [] msgs)"

subsection \<open>Worst status\<close>

text \<open>The \<^verbatim>\<open>for (const status of lineStatuses)\<close> loop, from the current \<^verbatim>\<open>worstSeverity\<close>.\<close>

fun worstSeverityLoop :: "int \<Rightarrow> TFLLineStatus list \<Rightarrow> int" where
  "worstSeverityLoop worstSeverity [] = worstSeverity"
| "worstSeverityLoop worstSeverity (status # rest) =
     (let severity = statusSeverity status in
      worstSeverityLoop
        (if severity \<noteq> 10 \<and> severity \<noteq> 18 \<and> severity \<noteq> 19
         then (if severity < worstSeverity \<or> worstSeverity = 10 then severity else worstSeverity)
         else worstSeverity)
        rest)"

definition worstStatus :: "TFLLineStatus list \<Rightarrow> TubeStatus" where
  "worstStatus lineStatuses' =
     (if length lineStatuses' > 0 then mapStatusSeverity (worstSeverityLoop 10 lineStatuses')
      else Good)"

subsection \<open>getTubeLineStatusData\<close>

text \<open>
  The \<^verbatim>\<open>.then\<close> callback. \<^verbatim>\<open>typedResponse.data.length\<close> raises on a null body, and
  \<^verbatim>\<open>lineData.lineStatuses\<close> on a first element that is \<^verbatim>\<open>null\<close>; both happen before anything
  is assigned, so a raise leaves \<^verbatim>\<open>this\<close> as it was. A body without a positive length
  takes the else branch.
\<close>

definition thenLineStatus ::
  "'arr helper \<Rightarrow> TFLLine js_body option \<Rightarrow> js_error + ('arr helper \<times> line_status_payload)" where
  "thenLineStatus this data =
     (case data of
        None \<Rightarrow> Inl TypeError
      | Some body \<Rightarrow>
          if (case body_length body of None \<Rightarrow> False | Some n \<Rightarrow> n > 0) then
            (let lineData = first_element body in
             case property lineData lineStatuses of
               Inl e \<Rightarrow> Inl e
             | Inr lineStatusesProperty \<Rightarrow>
             (case property lineData disruptions of
               Inl e \<Rightarrow> Inl e
             | Inr disruptionsProperty \<Rightarrow>
             (let lineStatuses' = or_empty_array lineStatusesProperty;
                  disruptions' = or_empty_array disruptionsProperty;
                  worst = worstStatus lineStatuses';
                  this' = this\<lparr>tubeStatus := Some worst\<rparr>;
                  statusSeverityDescription' =
                    (case lineStatuses' of [] \<Rightarrow> Null
                     | first # _ \<Rightarrow> Str (statusSeverityDescription first))
              in Inr (this',
                \<lparr>p_serviceURL = serviceURL this', p_tubeStatus = worst,
                 p_tubeStatusDescription =
                   (if worst \<noteq> Good then statusSeverityDescription' else Null),
                 p_combinedMessages =
                   combinedMessages (allMessages lineStatuses' disruptions')\<rparr>))))
          else
            (let this' = this\<lparr>tubeStatus := Some Good\<rparr> in
             Inr (this',
               \<lparr>p_serviceURL = serviceURL this', p_tubeStatus = Good,
                p_tubeStatusDescription = Absent, p_combinedMessages = []\<rparr>)))"

text \<open>The \<^verbatim>\<open>.catch\<close> callback; \<^verbatim>\<open>this.tubeStatus || "good"\<close> (each status is truthy).\<close>

definition catchLineStatus :: "'arr helper \<Rightarrow> js_error \<Rightarrow> 'arr helper \<times> line_status_payload" where
  "catchLineStatus this error =
     (let this' = this\<lparr>result := None\<rparr> in
      (this',
         \<lparr>p_serviceURL = serviceURL this',
          p_tubeStatus = (case tubeStatus this' of None \<Rightarrow> Good | Some s \<Rightarrow> s),
          p_tubeStatusDescription = Absent, p_combinedMessages = []\<rparr>))"

text \<open>
  The handler: the assignment to \<^verbatim>\<open>this.serviceURL\<close>, then the promise chain
  \<^verbatim>\<open>axios.get(...).then(...).catch(...)\<close>, whose \<^verbatim>\<open>.catch\<close> also receives what the \<^verbatim>\<open>.then\<close>
  callback raises.
\<close>

definition getTubeLineStatusData ::
  "'arr helper \<Rightarrow> string \<Rightarrow> TFLLine js_body option settled \<Rightarrow>
   'arr helper \<times> line_status_payload" where
  "getTubeLineStatusData this payload response =
     (let this1 = this\<lparr>serviceURL := Some payload\<rparr> in
      case response of
        Rejected error \<Rightarrow> catchLineStatus this1 error
      | Resolved data \<Rightarrow>
          (case thenLineStatus this1 data of
             Inr done \<Rightarrow> done
           | Inl error \<Rightarrow> catchLineStatus this1 error))"

subsection \<open>getTubeStatusData\<close>

text \<open>The \<^verbatim>\<open>.then\<close> callback only copies \<^verbatim>\<open>response.data\<close>; nothing in it can raise.\<close>

definition getTubeStatusData ::
  "'arr helper \<Rightarrow> string \<Rightarrow> 'arr option settled \<Rightarrow> 'arr helper \<times> 'arr tube_times_payload" where
  "getTubeStatusData this payload response =
     (let this1 = this\<lparr>url := Some payload\<rparr> in
      case response of
        Resolved data \<Rightarrow>
          (let this' = this1\<lparr>result := data\<rparr> in
           (this', \<lparr>t_url = url this', t_result = result this'\<rparr>))
      | Rejected error \<Rightarrow>
          (let this' = this1\<lparr>result := None\<rparr> in
           (this', \<lparr>t_url = url this', t_result = result this'\<rparr>)))"

section \<open>Notions of the specification\<close>

text \<open>
  The definitions of this section are not taken from the source. They say, in the words of
  the specification, what the source is compared with.
\<close>

text \<open>
  The request fails when the promise chain reaches the \<^verbatim>\<open>.catch\<close> callback: \<^verbatim>\<open>axios.get\<close>
  rejects, or the \<^verbatim>\<open>.then\<close> callback raises.
\<close>

definition requestFails ::
  "'arr helper \<Rightarrow> string \<Rightarrow> TFLLine js_body option settled \<Rightarrow> bool" where
  "requestFails this payload response =
     (case response of
        Rejected error \<Rightarrow> True
      | Resolved data \<Rightarrow> isl (thenLineStatus (this\<lparr>serviceURL := Some payload\<rparr>) data))"

text \<open>
  A body is malformed when it is not a JSON array of objects.
\<close>

definition is_object :: "'a js_element \<Rightarrow> bool" where
  "is_object x = (case x of ObjectElement obj \<Rightarrow> True | _ \<Rightarrow> False)"

definition malformedBody :: "'a js_body option \<Rightarrow> bool" where
  "malformedBody data =
     (case data of Some (JsonArray xs) \<Rightarrow> \<not> list_all is_object xs | _ \<Rightarrow> True)"

text \<open>The entries of an array property of a line: none when the property is missing.\<close>

fun entriesOf :: "'a list option \<Rightarrow> 'a list" where
  "entriesOf None = []"
| "entriesOf (Some xs) = xs"

text \<open>The severities of the LineStatus entries of a line, in order.\<close>

definition severities :: "TFLLine \<Rightarrow> int list" where
  "severities lineData = map statusSeverity (entriesOf (lineStatuses lineData))"

text \<open>
  The status of the numerically smallest severity among those not in \<open>{10, 18, 19}\<close>,
  and good when none remains.
\<close>

definition smallestNonGoodStatus :: "int list \<Rightarrow> TubeStatus" where
  "smallestNonGoodStatus vs =
     (let remaining = filter (\<lambda>v. v \<notin> {10, 18, 19}) vs in
      if remaining = [] then Good else mapStatusSeverity (Min (set remaining)))"




text \<open>
  The message list before deduplication, as the specification words it. A string is
  non-empty when it is there and has a character; \<open>stringOrEmpty\<close> is the string, or the
  empty string when there is none.
\<close>

definition nonEmpty :: "string option \<Rightarrow> bool" where
  "nonEmpty v \<longleftrightarrow> v \<noteq> None \<and> v \<noteq> Some []"

definition stringOrEmpty :: "string option \<Rightarrow> string" where
  "stringOrEmpty v = (case v of None \<Rightarrow> [] | Some s \<Rightarrow> s)"

definition nestedDescription :: "TFLLineStatus \<Rightarrow> string option" where
  "nestedDescription status =
     (case disruption status of None \<Rightarrow> None | Some d \<Rightarrow> description d)"

definition messageOfStatus :: "TFLLineStatus \<Rightarrow> StandardizedMessage" where
  "messageOfStatus status =
     \<lparr>m_text =
        (if nonEmpty (reason status) then stringOrEmpty (reason status)
         else stringOrEmpty (nestedDescription status)),
      m_statusSeverity = statusSeverity status,
      m_statusSeverityDescription = statusSeverityDescription status,
      m_category =
        (case disruption status of None \<Rightarrow> [] | Some d \<Rightarrow> stringOrEmpty (category d)),
      m_categoryDescription =
        (case disruption status of None \<Rightarrow> []
         | Some d \<Rightarrow> stringOrEmpty (categoryDescription d))\<rparr>"

definition messageOfDisruption :: "TFLDisruption \<Rightarrow> StandardizedMessage" where
  "messageOfDisruption d =
     \<lparr>m_text = stringOrEmpty (description d),
      m_statusSeverity = 0,
      m_statusSeverityDescription = [],
      m_category = stringOrEmpty (category d),
      m_categoryDescription = stringOrEmpty (categoryDescription d)\<rparr>"

definition preDeduplicationMessages :: "TFLLine \<Rightarrow> StandardizedMessage list" where
  "preDeduplicationMessages lineData =
     map messageOfStatus
       (filter (\<lambda>status. nonEmpty (reason status) \<or> nonEmpty (nestedDescription status))
          (entriesOf (lineStatuses lineData)))
     @ map messageOfDisruption
       (filter (\<lambda>d. nonEmpty (description d)) (entriesOf (disruptions lineData)))"

section \<open>Example data\<close>

text \<open>
  A line with four status entries, of severities 10, 9, 18 and 3, and one top-level
  disruption; and a message with a given text.
\<close>

definition goodService :: TFLLineStatus where
  "goodService = \<lparr>statusSeverity = 10, statusSeverityDescription = ''Good Service'',
      reason = None, disruption = None\<rparr>"

definition minorDelays :: TFLLineStatus where
  "minorDelays = \<lparr>statusSeverity = 9, statusSeverityDescription = ''Minor Delays'',
      reason = Some ''Delays'', disruption = None\<rparr>"

definition noIssues :: TFLLineStatus where
  "noIssues = \<lparr>statusSeverity = 18, statusSeverityDescription = ''No Issues'',
      reason = None, disruption = None\<rparr>"

definition partSuspended :: TFLLineStatus where
  "partSuspended = \<lparr>statusSeverity = 3, statusSeverityDescription = ''Part Suspended'',
      reason = Some ''Delays'',
      disruption = Some \<lparr>category = Some ''RealTime'', categoryDescription = Some ''RealTime'',
        description = Some ''No service between A and B''\<rparr>\<rparr>"

definition signalFailure :: TFLDisruption where
  "signalFailure = \<lparr>category = Some ''RealTime'', categoryDescription = None,
      description = Some ''Signal failure''\<rparr>"

definition exampleLine :: TFLLine where
  "exampleLine = \<lparr>lineStatuses = Some [goodService, minorDelays, noIssues, partSuspended],
      disruptions = Some [signalFailure]\<rparr>"

definition message :: "string \<Rightarrow> int \<Rightarrow> StandardizedMessage" where
  "message t v = \<lparr>m_text = t, m_statusSeverity = v, m_statusSeverityDescription = [],
      m_category = [], m_categoryDescription = []\<rparr>"

section \<open>Lemmas\<close>

subsection \<open>The worst-severity loop\<close>

lemma Min_insert_min:
  "finite B \<Longrightarrow> Min (insert (min a b) B) = Min (insert b (insert (a::int) B))"
  by (cases "B = {}") (auto simp: min_def Min_insert2 ac_simps)

text \<open>
  Once \<^verbatim>\<open>worstSeverity\<close> has left its initial 10 it never returns to it, and the loop
  computes a minimum.
\<close>

lemma worstSeverityLoop_min:
  "w \<noteq> 10 \<Longrightarrow> worstSeverityLoop w ss =
     Min (insert w (set (filter (\<lambda>v. v \<notin> {10, 18, 19}) (map statusSeverity ss))))"
proof (induction ss arbitrary: w)
  case Nil
  then show ?case by simp
next
  case (Cons s ss)
  let ?B = "set (filter (\<lambda>v. v \<notin> {10, 18, 19}) (map statusSeverity ss))"
  show ?case
  proof (cases "statusSeverity s \<in> {10, 18, 19}")
    case True
    with Cons show ?thesis by auto
  next
    case False
    with Cons.prems
    have "worstSeverityLoop w (s # ss) = worstSeverityLoop (min (statusSeverity s) w) ss"
      by (auto simp: Let_def min_def)
    also have "\<dots> = Min (insert (min (statusSeverity s) w) ?B)"
      using False Cons.prems by (intro Cons.IH) (auto simp: min_def)
    also have "\<dots> = Min (insert w (insert (statusSeverity s) ?B))"
      by (rule Min_insert_min) simp
    finally show ?thesis using False by simp
  qed
qed

lemma worstSeverityLoop_10:
  "worstSeverityLoop 10 ss =
     (let remaining = filter (\<lambda>v. v \<notin> {10, 18, 19}) (map statusSeverity ss) in
      if remaining = [] then 10 else Min (set remaining))"
proof (induction ss)
  case Nil
  then show ?case by simp
next
  case (Cons s ss)
  then show ?case
    by (auto simp: Let_def worstSeverityLoop_min)
qed

lemma worstStatus_smallest:
  "worstStatus ls = smallestNonGoodStatus (map statusSeverity ls)"
  by (auto simp: worstStatus_def smallestNonGoodStatus_def worstSeverityLoop_10 Let_def
      mapStatusSeverity_def)

subsection \<open>The Map of unique messages\<close>





subsection \<open>The JavaScript idioms and the words of the specification\<close>

lemma or_empty_array_entriesOf: "or_empty_array a = entriesOf a"
  by (cases a) (simp_all add: or_empty_array_def)

lemma or_empty_stringOrEmpty: "or_empty v = stringOrEmpty v"
  by (cases v) (auto simp: or_empty_def or_else_def truthy_def stringOrEmpty_def)

lemma truthy_nonEmpty: "truthy v = nonEmpty v"
  by (cases v) (auto simp: truthy_def nonEmpty_def)

lemma statusHasText_spec:
  "statusHasText status \<longleftrightarrow> nonEmpty (reason status) \<or> nonEmpty (nestedDescription status)"
  by (auto simp: statusHasText_def truthy_nonEmpty nestedDescription_def nonEmpty_def
      split: option.splits)

lemma statusMessage_spec: "statusMessage status = messageOfStatus status"
  by (auto simp: statusMessage_def messageOfStatus_def or_empty_stringOrEmpty or_else_def
      truthy_nonEmpty opt_chain_def nestedDescription_def stringOrEmpty_def
      split: option.splits)

lemma disruptionMessage_spec: "disruptionMessage d = messageOfDisruption d"
  by (simp add: disruptionMessage_def messageOfDisruption_def or_empty_stringOrEmpty)

lemma allMessages_spec:
  "allMessages (or_empty_array (lineStatuses lineData)) (or_empty_array (disruptions lineData))
     = preDeduplicationMessages lineData"
  by (simp add: allMessages_def messagesFromStatuses_def messagesFromDisruptions_def
      preDeduplicationMessages_def statusHasText_spec [abs_def] statusMessage_spec [abs_def]
      disruptionMessage_spec [abs_def] truthy_nonEmpty or_empty_array_entriesOf)

subsection \<open>The paths of getTubeLineStatusData\<close>

text \<open>An array whose first element is a line: the \<^verbatim>\<open>.then\<close> callback completes.\<close>

lemma getTubeLineStatusData_line:
  "getTubeLineStatusData this payload
     (Resolved (Some (JsonArray (ObjectElement lineData # rest)))) =
     (let lineStatuses' = or_empty_array (lineStatuses lineData);
          disruptions' = or_empty_array (disruptions lineData);
          worst = worstStatus lineStatuses'
      in (this\<lparr>serviceURL := Some payload, tubeStatus := Some worst\<rparr>,
          \<lparr>p_serviceURL = Some payload, p_tubeStatus = worst,
           p_tubeStatusDescription =
             (if worst \<noteq> Good
              then (case lineStatuses' of [] \<Rightarrow> Null
                    | first # _ \<Rightarrow> Str (statusSeverityDescription first))
              else Null),
           p_combinedMessages = combinedMessages (allMessages lineStatuses' disruptions')\<rparr>))"
  by (simp add: getTubeLineStatusData_def thenLineStatus_def body_length_def first_element_def
      property_def Let_def)

lemma first_line_completes:
  "\<not> requestFails this payload (Resolved (Some (JsonArray (ObjectElement lineData # rest))))"
  by (simp add: requestFails_def thenLineStatus_def body_length_def first_element_def
      property_def Let_def)

text \<open>
  An array whose first element is a primitive value: both properties are \<^verbatim>\<open>undefined\<close>,
  and the callback completes with no entries.
\<close>

lemma getTubeLineStatusData_primitive:
  "getTubeLineStatusData this payload (Resolved (Some (JsonArray (PrimitiveElement # rest)))) =
     (this\<lparr>serviceURL := Some payload, tubeStatus := Some Good\<rparr>,
      \<lparr>p_serviceURL = Some payload, p_tubeStatus = Good, p_tubeStatusDescription = Null,
       p_combinedMessages = []\<rparr>)"
  by (simp add: getTubeLineStatusData_def thenLineStatus_def body_length_def first_element_def
      property_def or_empty_array_def worstStatus_def allMessages_def messagesFromStatuses_def
      messagesFromDisruptions_def combinedMessages_def Map_values_def Let_def)

lemma primitive_completes:
  "\<not> requestFails this payload (Resolved (Some (JsonArray (PrimitiveElement # rest))))"
  by (simp add: requestFails_def thenLineStatus_def body_length_def first_element_def
      property_def Let_def)

text \<open>A body without a positive length: the else branch.\<close>

lemma getTubeLineStatusData_else:
  "body_length body = None \<or> body_length body = Some 0 \<Longrightarrow>
   getTubeLineStatusData this payload (Resolved (Some body)) =
     (this\<lparr>serviceURL := Some payload, tubeStatus := Some Good\<rparr>,
      \<lparr>p_serviceURL = Some payload, p_tubeStatus = Good, p_tubeStatusDescription = Absent,
       p_combinedMessages = []\<rparr>)"
  by (auto simp: getTubeLineStatusData_def thenLineStatus_def Let_def)

text \<open>The \<^verbatim>\<open>.catch\<close> callback is reached.\<close>

lemma getTubeLineStatusData_catch:
  "requestFails this payload response \<Longrightarrow>
   getTubeLineStatusData this payload response =
     (this\<lparr>serviceURL := Some payload, result := None\<rparr>,
      \<lparr>p_serviceURL = Some payload,
       p_tubeStatus = (case tubeStatus this of None \<Rightarrow> Good | Some s \<Rightarrow> s),
       p_tubeStatusDescription = Absent, p_combinedMessages = []\<rparr>)"
  by (auto simp: requestFails_def getTubeLineStatusData_def catchLineStatus_def Let_def
      split: settled.splits sum.splits)

section \<open>The severity mapping\<close>

text \<open>
  C2. The mapping yields good exactly on 10, 18 and 19, severe exactly on 1, 2, 3, 6, 16
  and 20, and warning exactly on every other value; the other integers from 0 to 20
  are listed.
\<close>

theorem mapStatusSeverity_classes:
  "(mapStatusSeverity s = Good \<longleftrightarrow> s \<in> {10, 18, 19}) \<and>
   (mapStatusSeverity s = Severe \<longleftrightarrow> s \<in> {1, 2, 3, 6, 16, 20}) \<and>
   (mapStatusSeverity s = Warning \<longleftrightarrow> s \<notin> {10, 18, 19} \<union> {1, 2, 3, 6, 16, 20}) \<and>
   filter (\<lambda>v. mapStatusSeverity v = Warning)
     [0, 1, 2, 3, 4, 5, 6, 7, 8, 9, 10, 11, 12, 13, 14, 15, 16, 17, 18, 19, 20]
     = [0, 4, 5, 7, 8, 9, 11, 12, 13, 14, 15, 17]"
proof -
  have classes: "(mapStatusSeverity s = Good \<longleftrightarrow> s \<in> {10, 18, 19}) \<and>
      (mapStatusSeverity s = Severe \<longleftrightarrow> s \<in> {1, 2, 3, 6, 16, 20}) \<and>
      (mapStatusSeverity s = Warning \<longleftrightarrow> s \<notin> {10, 18, 19} \<union> {1, 2, 3, 6, 16, 20})"
    by (auto simp: mapStatusSeverity_def)
  have listed: "filter (\<lambda>v. mapStatusSeverity v = Warning)
      [0, 1, 2, 3, 4, 5, 6, 7, 8, 9, 10, 11, 12, 13, 14, 15, 16, 17, 18, 19, 20]
      = [0, 4, 5, 7, 8, 9, 11, 12, 13, 14, 15, 17]"
    by (simp add: mapStatusSeverity_def)
  from classes listed show ?thesis by blast
qed

section \<open>The aggregate status\<close>

text \<open>
  C1. For a response whose first element is a line, the status that is sent, and stored in
  \<^verbatim>\<open>this.tubeStatus\<close>, is the mapping applied to the numerically smallest severity among
  the entries of \<^verbatim>\<open>lineStatuses\<close> whose severity is not 10, 18 or 19, and good when the
  array is empty or missing or every severity is one of these three. For the severities
  10, 9, 18, 3 it is severe.
\<close>

theorem aggregate_status_smallest_non_good:
  "p_tubeStatus (snd (getTubeLineStatusData this payload
       (Resolved (Some (JsonArray (ObjectElement lineData # rest))))))
     = smallestNonGoodStatus (severities lineData) \<and>
   tubeStatus (fst (getTubeLineStatusData this payload
       (Resolved (Some (JsonArray (ObjectElement lineData # rest))))))
     = Some (smallestNonGoodStatus (severities lineData)) \<and>
   (severities lineData = [10, 9, 18, 3] \<longrightarrow>
    p_tubeStatus (snd (getTubeLineStatusData this payload
       (Resolved (Some (JsonArray (ObjectElement lineData # rest))))))
      = Severe)"
proof -
  have eq: "worstStatus (or_empty_array (lineStatuses lineData))
      = smallestNonGoodStatus (severities lineData)"
    by (simp add: worstStatus_smallest severities_def or_empty_array_entriesOf)
  have ex: "smallestNonGoodStatus [10, 9, 18, 3] = Severe"
    by (simp add: smallestNonGoodStatus_def mapStatusSeverity_def)
  show ?thesis
    by (simp add: getTubeLineStatusData_line Let_def eq ex)
qed

text \<open>The example line has the severities 10, 9, 18, 3, and its status is severe.\<close>

theorem aggregate_status_smallest_non_good_witness:
  "severities exampleLine = [10, 9, 18, 3] \<and>
   p_tubeStatus (snd (getTubeLineStatusData (start :: unit helper) ''u''
      (Resolved (Some (JsonArray [ObjectElement exampleLine]))))) = Severe"
proof -
  have s: "severities exampleLine = [10, 9, 18, 3]"
    by (simp add: severities_def exampleLine_def goodService_def
        minorDelays_def noIssues_def partSuspended_def)
  from aggregate_status_smallest_non_good [of "start :: unit helper" "''u''" exampleLine "[]"] s
  show ?thesis by blast
qed

section \<open>The messages\<close>



text \<open>
  C4. For a response whose first element is a line, the list that the handler builds
  before deduplication, from the two arrays of that line, is: a message for every
  LineStatus entry that has a non-empty reason or a nested disruption with a non-empty
  description, whose text is the reason if that is non-empty and the nested description
  otherwise, whose category and category description are those of the nested disruption,
  or empty, and whose severity and severity description are the entry's; followed by a
  message for every top-level disruption with a non-empty description, whose text is that
  description, with severity 0, an empty severity description and the disruption's
  category and category description. The messages that the handler sends are the
  deduplication of this list. For a line with one entry, of reason Delays and without a
  nested disruption, and one disruption, described as Signal failure, the handler builds
  and sends two messages, with the texts Delays and Signal failure, in this order.
\<close>

theorem messages_before_deduplication:
  "allMessages (or_empty_array (lineStatuses lineData)) (or_empty_array (disruptions lineData))
     = preDeduplicationMessages lineData \<and>
   p_combinedMessages (snd (getTubeLineStatusData this payload
       (Resolved (Some (JsonArray (ObjectElement lineData # rest))))))
     = combinedMessages (preDeduplicationMessages lineData) \<and>
   (lineStatuses lineData = Some [status] \<and> disruptions lineData = Some [d] \<and>
    reason status = Some ''Delays'' \<and> disruption status = None \<and>
    description d = Some ''Signal failure'' \<longrightarrow>
    map m_text
      (allMessages (or_empty_array (lineStatuses lineData))
         (or_empty_array (disruptions lineData)))
      = [''Delays'', ''Signal failure''] \<and>
    map m_text (p_combinedMessages (snd (getTubeLineStatusData this payload
       (Resolved (Some (JsonArray (ObjectElement lineData # rest)))))))
      = [''Delays'', ''Signal failure''])"
proof -
  have out: "p_combinedMessages (snd (getTubeLineStatusData this payload
       (Resolved (Some (JsonArray (ObjectElement lineData # rest))))))
     = combinedMessages (preDeduplicationMessages lineData)"
    by (simp add: getTubeLineStatusData_line Let_def allMessages_spec)
  have ex: "map m_text (preDeduplicationMessages lineData) = [''Delays'', ''Signal failure''] \<and>
      map m_text (combinedMessages (preDeduplicationMessages lineData))
        = [''Delays'', ''Signal failure'']"
    if "lineStatuses lineData = Some [status]" "disruptions lineData = Some [d]"
      "reason status = Some ''Delays''" "disruption status = None"
      "description d = Some ''Signal failure''"
    using that
    by (simp add: preDeduplicationMessages_def nonEmpty_def nestedDescription_def
        messageOfStatus_def messageOfDisruption_def stringOrEmpty_def combinedMessages_def
        Map_has_def Map_values_def)
  have ex': "map m_text
      (allMessages (or_empty_array (lineStatuses lineData))
         (or_empty_array (disruptions lineData)))
      = [''Delays'', ''Signal failure''] \<and>
    map m_text (p_combinedMessages (snd (getTubeLineStatusData this payload
       (Resolved (Some (JsonArray (ObjectElement lineData # rest)))))))
      = [''Delays'', ''Signal failure'']"
    if "lineStatuses lineData = Some [status]" "disruptions lineData = Some [d]"
      "reason status = Some ''Delays''" "disruption status = None"
      "description d = Some ''Signal failure''"
    using ex [OF that] by (simp only: allMessages_spec out)
  from allMessages_spec [of lineData] out ex' show ?thesis by blast
qed

text \<open>
  The handler on a line with the entry and the disruption of the example: the two
  messages that it sends, in full.
\<close>

theorem messages_before_deduplication_witness:
  "lineStatuses \<lparr>lineStatuses = Some [minorDelays], disruptions = Some [signalFailure]\<rparr>
     = Some [minorDelays] \<and>
   disruptions \<lparr>lineStatuses = Some [minorDelays], disruptions = Some [signalFailure]\<rparr>
     = Some [signalFailure] \<and>
   reason minorDelays = Some ''Delays'' \<and> disruption minorDelays = None \<and>
   description signalFailure = Some ''Signal failure'' \<and>
   p_combinedMessages (snd (getTubeLineStatusData (start :: unit helper) ''u''
     (Resolved (Some (JsonArray [ObjectElement
        \<lparr>lineStatuses = Some [minorDelays], disruptions = Some [signalFailure]\<rparr>]))))) =
     [\<lparr>m_text = ''Delays'', m_statusSeverity = 9, m_statusSeverityDescription = ''Minor Delays'',
       m_category = [], m_categoryDescription = []\<rparr>,
      \<lparr>m_text = ''Signal failure'', m_statusSeverity = 0, m_statusSeverityDescription = [],
       m_category = ''RealTime'', m_categoryDescription = []\<rparr>]"
proof -
  let ?line = "\<lparr>lineStatuses = Some [minorDelays], disruptions = Some [signalFailure]\<rparr>"
  have h: "reason minorDelays = Some ''Delays'' \<and> disruption minorDelays = None \<and>
      description signalFailure = Some ''Signal failure''"
    by (simp add: minorDelays_def signalFailure_def)
  have p: "combinedMessages (preDeduplicationMessages ?line) =
     [\<lparr>m_text = ''Delays'', m_statusSeverity = 9, m_statusSeverityDescription = ''Minor Delays'',
       m_category = [], m_categoryDescription = []\<rparr>,
      \<lparr>m_text = ''Signal failure'', m_statusSeverity = 0, m_statusSeverityDescription = [],
       m_category = ''RealTime'', m_categoryDescription = []\<rparr>]"
    by (simp add: preDeduplicationMessages_def minorDelays_def
        signalFailure_def nonEmpty_def nestedDescription_def messageOfStatus_def
        messageOfDisruption_def stringOrEmpty_def combinedMessages_def Map_has_def
        Map_values_def)
  from messages_before_deduplication
    [of ?line "start :: unit helper" "''u''" "[]" minorDelays signalFailure] h p
  show ?thesis by simp
qed

section \<open>Failure and the empty array\<close>

text \<open>
  C5, as stated, fails for a malformed response on which nothing raises. After the status
  severe was stored, a body that is an object takes the else branch and a body that is a
  string takes the branch of the first line: the status good is sent and stored, not the
  last known status, and for the string the description is null and not left out.
\<close>

theorem failed_line_status_response_counterexample:
  "malformedBody (Some (JsonOther :: TFLLine js_body)) \<and>
   getTubeLineStatusData (start\<lparr>tubeStatus := Some Severe\<rparr> :: unit helper) ''u''
     (Resolved (Some JsonOther)) =
     (\<lparr>result = None, url = None, serviceURL = Some ''u'', tubeStatus = Some Good\<rparr>,
      \<lparr>p_serviceURL = Some ''u'', p_tubeStatus = Good, p_tubeStatusDescription = Absent,
       p_combinedMessages = []\<rparr>) \<and>
   malformedBody (Some (JsonText ''<html>'' :: TFLLine js_body)) \<and>
   getTubeLineStatusData (start\<lparr>tubeStatus := Some Severe\<rparr> :: unit helper) ''u''
     (Resolved (Some (JsonText ''<html>''))) =
     (\<lparr>result = None, url = None, serviceURL = Some ''u'', tubeStatus = Some Good\<rparr>,
      \<lparr>p_serviceURL = Some ''u'', p_tubeStatus = Good, p_tubeStatusDescription = Null,
       p_combinedMessages = []\<rparr>)"
proof -
  have other: "getTubeLineStatusData (start\<lparr>tubeStatus := Some Severe\<rparr> :: unit helper) ''u''
     (Resolved (Some JsonOther)) =
     (\<lparr>result = None, url = None, serviceURL = Some ''u'', tubeStatus = Some Good\<rparr>,
      \<lparr>p_serviceURL = Some ''u'', p_tubeStatus = Good, p_tubeStatusDescription = Absent,
       p_combinedMessages = []\<rparr>)"
    by (simp add: getTubeLineStatusData_else body_length_def start_def)
  have string: "getTubeLineStatusData (start\<lparr>tubeStatus := Some Severe\<rparr> :: unit helper) ''u''
     (Resolved (Some (JsonText ''<html>''))) =
     (\<lparr>result = None, url = None, serviceURL = Some ''u'', tubeStatus = Some Good\<rparr>,
      \<lparr>p_serviceURL = Some ''u'', p_tubeStatus = Good, p_tubeStatusDescription = Null,
       p_combinedMessages = []\<rparr>)"
    by (simp add: getTubeLineStatusData_def thenLineStatus_def body_length_def
        first_element_def property_def or_empty_array_def worstStatus_def allMessages_def
        messagesFromStatuses_def messagesFromDisruptions_def combinedMessages_def
        Map_values_def start_def Let_def)
  have m: "malformedBody (Some (JsonOther :: TFLLine js_body)) \<and>
      malformedBody (Some (JsonText ''<html>'' :: TFLLine js_body))"
    by (simp add: malformedBody_def)
  from other string m show ?thesis by simp
qed

text \<open>
  C5, amended. The request fails when the \<^verbatim>\<open>.catch\<close> callback is reached: the promise is
  rejected, or the \<^verbatim>\<open>.then\<close> callback raises, as it does on a null body and on an array whose
  first element is null. The payload that is then sent has the last known status, or good
  when there is none, no messages and no description property. The handler has a value on
  every path: the \<^verbatim>\<open>.catch\<close> callback receives what is raised and raises nothing itself.
\<close>

theorem failed_line_status_response:
  "requestFails this payload (Rejected error) \<and>
   requestFails this payload (Resolved None) \<and>
   requestFails this payload (Resolved (Some (JsonArray (NullElement # rest)))) \<and>
   (requestFails this payload response \<longrightarrow>
      snd (getTubeLineStatusData this payload response) =
        \<lparr>p_serviceURL = Some payload,
         p_tubeStatus = (case tubeStatus this of None \<Rightarrow> Good | Some lastKnown \<Rightarrow> lastKnown),
         p_tubeStatusDescription = Absent,
         p_combinedMessages = []\<rparr>)"
proof -
  have raises: "requestFails this payload (Rejected error) \<and>
      requestFails this payload (Resolved None) \<and>
      requestFails this payload (Resolved (Some (JsonArray (NullElement # rest))))"
    by (simp add: requestFails_def thenLineStatus_def body_length_def first_element_def
        property_def Let_def)
  with getTubeLineStatusData_catch [of this payload response] show ?thesis
    by simp
qed

text \<open>
  A network error after the status severe was stored; a null body and an array holding
  null on a fresh helper.
\<close>

theorem failed_line_status_response_witness:
  "requestFails (start\<lparr>tubeStatus := Some Severe\<rparr> :: unit helper) ''u''
     (Rejected (RequestError ''Network Error'')) \<and>
   snd (getTubeLineStatusData (start\<lparr>tubeStatus := Some Severe\<rparr> :: unit helper) ''u''
     (Rejected (RequestError ''Network Error''))) =
     \<lparr>p_serviceURL = Some ''u'', p_tubeStatus = Severe, p_tubeStatusDescription = Absent,
      p_combinedMessages = []\<rparr> \<and>
   requestFails (start :: unit helper) ''u'' (Resolved None) \<and>
   snd (getTubeLineStatusData (start :: unit helper) ''u'' (Resolved None)) =
     \<lparr>p_serviceURL = Some ''u'', p_tubeStatus = Good, p_tubeStatusDescription = Absent,
      p_combinedMessages = []\<rparr> \<and>
   requestFails (start :: unit helper) ''u'' (Resolved (Some (JsonArray [NullElement]))) \<and>
   snd (getTubeLineStatusData (start :: unit helper) ''u''
     (Resolved (Some (JsonArray [NullElement])))) =
     \<lparr>p_serviceURL = Some ''u'', p_tubeStatus = Good, p_tubeStatusDescription = Absent,
      p_combinedMessages = []\<rparr>"
proof -
  let ?severe = "start\<lparr>tubeStatus := Some Severe\<rparr> :: unit helper"
  let ?error = "RequestError ''Network Error''"
  note t1 = failed_line_status_response [of ?severe "''u''" ?error "[]" "Rejected ?error"]
  note t2 = failed_line_status_response [of "start :: unit helper" "''u''" ?error "[]"
      "Resolved None"]
  note t3 = failed_line_status_response [of "start :: unit helper" "''u''" ?error "[]"
      "Resolved (Some (JsonArray [NullElement]))"]
  from t1 have r1: "requestFails ?severe ''u'' (Rejected ?error)"
    by blast
  with t1 have p1: "snd (getTubeLineStatusData ?severe ''u'' (Rejected ?error)) =
     \<lparr>p_serviceURL = Some ''u'', p_tubeStatus = Severe, p_tubeStatusDescription = Absent,
      p_combinedMessages = []\<rparr>"
    by (simp add: start_def)
  from t2 have r2: "requestFails (start :: unit helper) ''u'' (Resolved None)"
    by blast
  with t2 have p2: "snd (getTubeLineStatusData (start :: unit helper) ''u'' (Resolved None)) =
     \<lparr>p_serviceURL = Some ''u'', p_tubeStatus = Good, p_tubeStatusDescription = Absent,
      p_combinedMessages = []\<rparr>"
    by (simp add: start_def)
  from t3 have r3: "requestFails (start :: unit helper) ''u''
      (Resolved (Some (JsonArray [NullElement])))"
    by blast
  with t3 have p3: "snd (getTubeLineStatusData (start :: unit helper) ''u''
      (Resolved (Some (JsonArray [NullElement])))) =
     \<lparr>p_serviceURL = Some ''u'', p_tubeStatus = Good, p_tubeStatusDescription = Absent,
      p_combinedMessages = []\<rparr>"
    by (simp add: start_def)
  from r1 p1 r2 p2 r3 p3 show ?thesis by blast
qed

text \<open>
  C6. An empty array is not a failure: the status good is stored and sent, with no
  messages and no description property, and \<^verbatim>\<open>this.result\<close> keeps its value.
\<close>

theorem empty_array_response:
  "getTubeLineStatusData this payload (Resolved (Some (JsonArray []))) =
     (this\<lparr>serviceURL := Some payload, tubeStatus := Some Good\<rparr>,
      \<lparr>p_serviceURL = Some payload, p_tubeStatus = Good, p_tubeStatusDescription = Absent,
       p_combinedMessages = []\<rparr>) \<and>
   \<not> requestFails this payload (Resolved (Some (JsonArray [])))"
  by (simp add: getTubeLineStatusData_def thenLineStatus_def requestFails_def body_length_def
      Let_def)

section \<open>The status description\<close>

text \<open>
  C7, as stated, fails for the empty array: the response is handled without error and its
  status is good, but the payload has no description property, which is not the same as
  a description that is null.
\<close>

theorem status_description_counterexample:
  "\<not> requestFails (start :: unit helper) ''u'' (Resolved (Some (JsonArray []))) \<and>
   p_tubeStatus
     (snd (getTubeLineStatusData (start :: unit helper) ''u'' (Resolved (Some (JsonArray [])))))
     = Good \<and>
   p_tubeStatusDescription
     (snd (getTubeLineStatusData (start :: unit helper) ''u'' (Resolved (Some (JsonArray [])))))
     \<noteq> Null"
  by (simp add: getTubeLineStatusData_def thenLineStatus_def requestFails_def body_length_def
      Let_def)

text \<open>
  C7, amended. For a response whose first element is a line, which always completes, the
  description is null when the status is good, and otherwise \<^verbatim>\<open>lineStatuses\<close> has a first
  entry and the description is the severity description of that entry. An array whose
  first element is a primitive value completes as well, with the status good and the
  description null; an array whose first element is null does not complete.
\<close>

theorem status_description_of_first_entry:
  "\<not> requestFails this payload
       (Resolved (Some (JsonArray (ObjectElement lineData # rest)))) \<and>
   (p_tubeStatus (snd (getTubeLineStatusData this payload
       (Resolved (Some (JsonArray (ObjectElement lineData # rest))))))
      = Good \<longrightarrow>
    p_tubeStatusDescription
      (snd (getTubeLineStatusData this payload
       (Resolved (Some (JsonArray (ObjectElement lineData # rest)))))) = Null) \<and>
   (p_tubeStatus (snd (getTubeLineStatusData this payload
       (Resolved (Some (JsonArray (ObjectElement lineData # rest))))))
      \<noteq> Good \<longrightarrow>
    (\<exists>first others. lineStatuses lineData = Some (first # others) \<and>
      p_tubeStatusDescription
        (snd (getTubeLineStatusData this payload
       (Resolved (Some (JsonArray (ObjectElement lineData # rest))))))
        = Str (statusSeverityDescription first))) \<and>
   \<not> requestFails this payload (Resolved (Some (JsonArray (PrimitiveElement # rest)))) \<and>
   p_tubeStatus (snd (getTubeLineStatusData this payload
     (Resolved (Some (JsonArray (PrimitiveElement # rest)))))) = Good \<and>
   p_tubeStatusDescription (snd (getTubeLineStatusData this payload
     (Resolved (Some (JsonArray (PrimitiveElement # rest)))))) = Null \<and>
   requestFails this payload (Resolved (Some (JsonArray (NullElement # rest))))"
proof -
  have null: "requestFails this payload (Resolved (Some (JsonArray (NullElement # rest))))"
    by (simp add: requestFails_def thenLineStatus_def body_length_def first_element_def
        property_def Let_def)
  have nonempty: "\<exists>first others. lineStatuses lineData = Some (first # others)"
    if "worstStatus (or_empty_array (lineStatuses lineData)) \<noteq> Good"
    using that
    by (cases "lineStatuses lineData"; cases "or_empty_array (lineStatuses lineData)")
      (auto simp: worstStatus_def or_empty_array_def)
  show ?thesis
    using first_line_completes [of this payload lineData rest]
      primitive_completes [of this payload rest] null nonempty
    by (auto simp: getTubeLineStatusData_line getTubeLineStatusData_primitive Let_def
        or_empty_array_def)
qed

text \<open>
  The status of the example line is severe through its fourth entry, and the description
  that is sent is that of its first entry, Good Service. A line whose only entry is good
  has the description null.
\<close>

theorem status_description_of_first_entry_witness:
  "p_tubeStatus (snd (getTubeLineStatusData (start :: unit helper) ''u''
     (Resolved (Some (JsonArray [ObjectElement exampleLine]))))) = Severe \<and>
   p_tubeStatusDescription (snd (getTubeLineStatusData (start :: unit helper) ''u''
     (Resolved (Some (JsonArray [ObjectElement exampleLine]))))) = Str ''Good Service'' \<and>
   p_tubeStatus (snd (getTubeLineStatusData (start :: unit helper) ''u''
     (Resolved (Some (JsonArray
        [ObjectElement \<lparr>lineStatuses = Some [goodService], disruptions = None\<rparr>]))))) = Good \<and>
   p_tubeStatusDescription (snd (getTubeLineStatusData (start :: unit helper) ''u''
     (Resolved (Some (JsonArray
        [ObjectElement \<lparr>lineStatuses = Some [goodService], disruptions = None\<rparr>]))))) = Null"
proof -
  let ?good = "\<lparr>lineStatuses = Some [goodService], disruptions = None\<rparr>"
  have s1: "p_tubeStatus (snd (getTubeLineStatusData (start :: unit helper) ''u''
      (Resolved (Some (JsonArray [ObjectElement exampleLine]))))) = Severe"
    by (simp add: getTubeLineStatusData_line worstStatus_def exampleLine_def
        or_empty_array_def goodService_def minorDelays_def noIssues_def partSuspended_def
        mapStatusSeverity_def)
  have s2: "p_tubeStatus (snd (getTubeLineStatusData (start :: unit helper) ''u''
      (Resolved (Some (JsonArray [ObjectElement ?good]))))) = Good"
    by (simp add: getTubeLineStatusData_line worstStatus_def or_empty_array_def goodService_def
        mapStatusSeverity_def)
  have l: "lineStatuses exampleLine
      = Some [goodService, minorDelays, noIssues, partSuspended]"
    by (simp add: exampleLine_def)
  have d: "statusSeverityDescription goodService = ''Good Service''"
    by (simp add: goodService_def)
  from s1 s2 l d
    status_description_of_first_entry [of "start :: unit helper" "''u''" exampleLine "[]"]
    status_description_of_first_entry [of "start :: unit helper" "''u''" ?good "[]"]
  show ?thesis by auto
qed

section \<open>Arrivals\<close>

text \<open>
  C8, as stated, fails for a malformed body: when the promise resolves with a body that
  is not an array, a string or an object, the \<^verbatim>\<open>.then\<close> callback stores and sends that body
  as the result, and not null.
\<close>

theorem arrivals_malformed_body_counterexample:
  "malformedBody (Some (JsonText ''<html>'' :: unit js_body)) \<and>
   getTubeStatusData (start :: unit js_body helper) ''u'' (Resolved (Some (JsonText ''<html>'')))
     = (\<lparr>result = Some (JsonText ''<html>''), url = Some ''u'', serviceURL = None,
         tubeStatus = None\<rparr>,
        \<lparr>t_url = Some ''u'', t_result = Some (JsonText ''<html>'')\<rparr>) \<and>
   malformedBody (Some (JsonOther :: unit js_body)) \<and>
   getTubeStatusData (start :: unit js_body helper) ''u'' (Resolved (Some JsonOther))
     = (\<lparr>result = Some JsonOther, url = Some ''u'', serviceURL = None, tubeStatus = None\<rparr>,
        \<lparr>t_url = Some ''u'', t_result = Some JsonOther\<rparr>) \<and>
   t_result (snd (getTubeStatusData (start :: unit js_body helper) ''u''
     (Resolved (Some (JsonText ''<html>''))))) \<noteq> None"
  by (simp add: malformedBody_def getTubeStatusData_def start_def Let_def)

text \<open>
  C8, amended. When the promise resolves, the body is stored and sent as it is, whatever
  it is: nothing is checked, and the result is null only when the body itself is null.
  When the promise is rejected, null is stored and sent. The handler has a value in both
  cases, and the URL of the request is stored and sent along.
\<close>

theorem arrivals_verbatim_or_null:
  "getTubeStatusData this payload (Resolved data) =
     (this\<lparr>url := Some payload, result := data\<rparr>, \<lparr>t_url = Some payload, t_result = data\<rparr>) \<and>
   (t_result (snd (getTubeStatusData this payload (Resolved data))) = None \<longleftrightarrow> data = None) \<and>
   getTubeStatusData this payload (Rejected error) =
     (this\<lparr>url := Some payload, result := None\<rparr>, \<lparr>t_url = Some payload, t_result = None\<rparr>)"
  by (simp add: getTubeStatusData_def Let_def)

section \<open>The fields of the helper after a failure\<close>

text \<open>
  C9. The \<^verbatim>\<open>.catch\<close> callback of the line-status handler sets \<^verbatim>\<open>this.result\<close>, the field of
  the arrivals handler, to null and leaves the other fields as they are. After a failed
  request \<^verbatim>\<open>result\<close> is null, \<^verbatim>\<open>url\<close> and \<^verbatim>\<open>tubeStatus\<close> are unchanged, and \<^verbatim>\<open>serviceURL\<close>
  is the URL of the request, assigned on entry, before the request was made.
\<close>

theorem failed_line_status_resets_result:
  "fst (catchLineStatus this error) = this\<lparr>result := None\<rparr> \<and>
   (requestFails this payload response \<longrightarrow>
      result (fst (getTubeLineStatusData this payload response)) = None \<and>
      url (fst (getTubeLineStatusData this payload response)) = url this \<and>
      tubeStatus (fst (getTubeLineStatusData this payload response)) = tubeStatus this \<and>
      serviceURL (fst (getTubeLineStatusData this payload response)) = Some payload \<and>
      fst (getTubeLineStatusData this payload response)
        = fst (catchLineStatus (this\<lparr>serviceURL := Some payload\<rparr>) error))"
  using getTubeLineStatusData_catch [of this payload response]
  by (simp add: catchLineStatus_def Let_def)

text \<open>Arrivals are fetched, then a line-status request fails: the arrivals are gone.\<close>

theorem failed_line_status_resets_result_witness:
  "requestFails (fst (getTubeStatusData (start :: nat list helper) ''a'' (Resolved (Some [1, 2]))))
     ''l'' (Rejected (RequestError ''Network Error'')) \<and>
   result (fst (getTubeStatusData (start :: nat list helper) ''a'' (Resolved (Some [1, 2]))))
     = Some [1, 2] \<and>
   fst (getTubeLineStatusData
     (fst (getTubeStatusData (start :: nat list helper) ''a'' (Resolved (Some [1, 2]))))
     ''l'' (Rejected (RequestError ''Network Error'')))
     = \<lparr>result = None, url = Some ''a'', serviceURL = Some ''l'', tubeStatus = None\<rparr>"
proof -
  let ?h = "fst (getTubeStatusData (start :: nat list helper) ''a'' (Resolved (Some [1, 2])))"
  have h_eq: "?h = \<lparr>result = Some [1, 2], url = Some ''a'', serviceURL = None,
      tubeStatus = None\<rparr>"
    by (simp add: getTubeStatusData_def start_def Let_def)
  have r: "requestFails ?h ''l'' (Rejected (RequestError ''Network Error''))"
    by (simp add: requestFails_def)
  from r h_eq
    failed_line_status_resets_result [of ?h "RequestError ''Network Error''" "''l''"
      "Rejected (RequestError ''Network Error'')"]
  show ?thesis by (simp add: catchLineStatus_def Let_def)
qed

section \<open>Missing arrays\<close>

text \<open>
  C10. A response whose first element is a line never reaches the \<^verbatim>\<open>.catch\<close> callback. A
  first line without \<^verbatim>\<open>lineStatuses\<close> is handled as the same line with an empty
  \<^verbatim>\<open>lineStatuses\<close> array, and likewise for \<^verbatim>\<open>disruptions\<close>; when both are missing the status
  is good, the description is null and there are no messages.
\<close>

theorem missing_arrays_are_empty:
  "\<not> requestFails this payload
       (Resolved (Some (JsonArray (ObjectElement lineData # rest)))) \<and>
   (lineStatuses lineData = None \<longrightarrow>
      getTubeLineStatusData this payload
       (Resolved (Some (JsonArray (ObjectElement lineData # rest)))) =
      getTubeLineStatusData this payload
        (Resolved (Some (JsonArray
           (ObjectElement (lineData\<lparr>lineStatuses := Some []\<rparr>) # rest))))) \<and>
   (disruptions lineData = None \<longrightarrow>
      getTubeLineStatusData this payload
       (Resolved (Some (JsonArray (ObjectElement lineData # rest)))) =
      getTubeLineStatusData this payload
        (Resolved (Some (JsonArray
           (ObjectElement (lineData\<lparr>disruptions := Some []\<rparr>) # rest))))) \<and>
   (lineStatuses lineData = None \<and> disruptions lineData = None \<longrightarrow>
      getTubeLineStatusData this payload
       (Resolved (Some (JsonArray (ObjectElement lineData # rest)))) =
        (this\<lparr>serviceURL := Some payload, tubeStatus := Some Good\<rparr>,
         \<lparr>p_serviceURL = Some payload, p_tubeStatus = Good, p_tubeStatusDescription = Null,
          p_combinedMessages = []\<rparr>))"
proof -
  have ls: "getTubeLineStatusData this payload
       (Resolved (Some (JsonArray (ObjectElement lineData # rest)))) =
      getTubeLineStatusData this payload
        (Resolved (Some (JsonArray
           (ObjectElement (lineData\<lparr>lineStatuses := Some []\<rparr>) # rest))))"
    if "lineStatuses lineData = None"
    using that by (simp add: getTubeLineStatusData_line or_empty_array_def)
  have ds: "getTubeLineStatusData this payload
       (Resolved (Some (JsonArray (ObjectElement lineData # rest)))) =
      getTubeLineStatusData this payload
        (Resolved (Some (JsonArray
           (ObjectElement (lineData\<lparr>disruptions := Some []\<rparr>) # rest))))"
    if "disruptions lineData = None"
    using that by (simp add: getTubeLineStatusData_line or_empty_array_def)
  have both: "getTubeLineStatusData this payload
       (Resolved (Some (JsonArray (ObjectElement lineData # rest)))) =
        (this\<lparr>serviceURL := Some payload, tubeStatus := Some Good\<rparr>,
         \<lparr>p_serviceURL = Some payload, p_tubeStatus = Good, p_tubeStatusDescription = Null,
          p_combinedMessages = []\<rparr>)"
    if "lineStatuses lineData = None" "disruptions lineData = None"
    using that
    by (simp add: getTubeLineStatusData_line or_empty_array_def worstStatus_def
        allMessages_def messagesFromStatuses_def messagesFromDisruptions_def
        combinedMessages_def Map_values_def)
  from first_line_completes [of this payload lineData rest] ls ds both show ?thesis by blast
qed

text \<open>A line with neither array, after the status severe was stored.\<close>

theorem missing_arrays_are_empty_witness:
  "lineStatuses \<lparr>lineStatuses = None, disruptions = None\<rparr> = None \<and>
   disruptions \<lparr>lineStatuses = None, disruptions = None\<rparr> = None \<and>
   getTubeLineStatusData (start\<lparr>tubeStatus := Some Severe\<rparr> :: unit helper) ''u''
     (Resolved (Some (JsonArray [ObjectElement \<lparr>lineStatuses = None, disruptions = None\<rparr>]))) =
     (\<lparr>result = None, url = None, serviceURL = Some ''u'', tubeStatus = Some Good\<rparr>,
      \<lparr>p_serviceURL = Some ''u'', p_tubeStatus = Good, p_tubeStatusDescription = Null,
       p_combinedMessages = []\<rparr>)"
proof -
  let ?line = "\<lparr>lineStatuses = None, disruptions = None\<rparr> :: TFLLine"
  let ?h = "start\<lparr>tubeStatus := Some Severe\<rparr> :: unit helper"
  have missing: "lineStatuses ?line = None \<and> disruptions ?line = None"
    by simp
  with missing_arrays_are_empty [of ?h "''u''" ?line "[]"]
  have "getTubeLineStatusData ?h ''u'' (Resolved (Some (JsonArray [ObjectElement ?line]))) =
      (?h\<lparr>serviceURL := Some ''u'', tubeStatus := Some Good\<rparr>,
       \<lparr>p_serviceURL = Some ''u'', p_tubeStatus = Good, p_tubeStatusDescription = Null,
        p_combinedMessages = []\<rparr>)"
    by blast
  with missing show ?thesis
    by (simp add: start_def)
qed

end
